theory Spec2Isabelle
  imports Complex_Main
begin

section \<open>JavaScript values\<close>

text \<open>
  The screens handle data of TypeScript type \<open>any\<close>: parsed JSON from the two
  upstream APIs and from the cache. Such a value is a \<open>jsval\<close>; \<open>JUndefined\<close> is
  what reading a missing property yields. An object is the list of its own
  properties (each key once, as \<open>JSON.parse\<close> builds it), read with \<open>map_of\<close>.
  Numbers carry their value as a rational; how a number prints (\<open>String(n)\<close>,
  \<open>n.toFixed(2)\<close>) is floating-point formatting and is taken as a parameter
  wherever the code needs it. Strings are ASCII.
\<close>

datatype error = TypeError | SyntaxError | FetchFailed | PersistenceFailure

datatype jsval =
    JUndefined
  | JNull
  | JBool bool
  | JNum rat
  | JStr string
  | JArr "jsval list"
  | JObj "(string \<times> jsval) list"

text \<open>Truthiness, as \<open>!v\<close>, \<open>v || w\<close>, \<open>v && w\<close> and \<open>if (v)\<close> test it.\<close>

fun truthy :: "jsval \<Rightarrow> bool" where
  "truthy JUndefined = False"
| "truthy JNull = False"
| "truthy (JBool b) = b"
| "truthy (JNum n) = (n \<noteq> 0)"
| "truthy (JStr s) = (s \<noteq> [])"
| "truthy (JArr xs) = True"
| "truthy (JObj kvs) = True"

text \<open>Reading a property of \<open>null\<close> or \<open>undefined\<close> throws a TypeError.\<close>

fun nullish :: "jsval \<Rightarrow> bool" where
  "nullish JUndefined = True"
| "nullish JNull = True"
| "nullish v = False"

text \<open>
  \<open>v.k\<close> for a \<open>v\<close> that is neither \<open>null\<close> nor \<open>undefined\<close> (the caller checks
  that first). The property names this program reads (\<open>name\<close>, \<open>symbol\<close>,
  \<open>ticker\<close>, \<open>price\<close>, \<open>close\<close>, \<open>last\<close>, \<open>change\<close>, \<open>bestMatches\<close>,
  \<open>top_gainers\<close>, \<open>top_losers\<close>, \<open>1. symbol\<close>) are no built-in property of a
  string, number, boolean or array, so there the read gives \<open>undefined\<close>.
\<close>

fun get_prop :: "jsval \<Rightarrow> string \<Rightarrow> jsval" where
  "get_prop (JObj kvs) k = (case map_of kvs k of Some v \<Rightarrow> v | None \<Rightarrow> JUndefined)"
| "get_prop v k = JUndefined"

text \<open>\<open>a || b\<close> on values that are already evaluated.\<close>

definition js_or :: "jsval \<Rightarrow> jsval \<Rightarrow> jsval" where
  "js_or a b = (if truthy a then a else b)"

text \<open>
  \<open>String(v)\<close>: a string is itself, an array joins the strings of its elements
  with commas (\<open>null\<close> and \<open>undefined\<close> elements print as nothing), a plain object
  prints as \<open>[object Object]\<close>. A parsed object with an own property \<open>toString\<close>
  hides the inherited method behind a value that cannot be called, and the
  inherited \<open>valueOf\<close> returns the object itself, so the conversion throws a
  TypeError; inside an array the first such element throws. \<open>ns\<close> prints a
  number.
\<close>

fun js_String :: "(rat \<Rightarrow> string) \<Rightarrow> jsval \<Rightarrow> error + string"
  and js_join :: "(rat \<Rightarrow> string) \<Rightarrow> jsval list \<Rightarrow> error + string" where
  "js_String ns JUndefined = Inr ''undefined''"
| "js_String ns JNull = Inr ''null''"
| "js_String ns (JBool b) = Inr (if b then ''true'' else ''false'')"
| "js_String ns (JNum n) = Inr (ns n)"
| "js_String ns (JStr s) = Inr s"
| "js_String ns (JArr xs) = js_join ns xs"
| "js_String ns (JObj kvs) =
     (if map_of kvs ''toString'' = None then Inr ''[object Object]'' else Inl TypeError)"
| "js_join ns [] = Inr []"
| "js_join ns (x # xs) =
     (case (if nullish x then Inr [] else js_String ns x) of
        Inl e \<Rightarrow> Inl e
      | Inr str \<Rightarrow>
          if xs = [] then Inr str
          else (case js_join ns xs of
                  Inl e \<Rightarrow> Inl e
                | Inr rest \<Rightarrow> Inr (str @ '','' @ rest)))"

text \<open>
  \<open>Number(v)\<close> converts an object or array to a primitive the same way, so it
  throws a TypeError on the same values: an object with an own \<open>toString\<close>, or
  an array with such an element.
\<close>

fun conversion_throws :: "jsval \<Rightarrow> bool"
  and elements_throw :: "jsval list \<Rightarrow> bool" where
  "conversion_throws JUndefined = False"
| "conversion_throws JNull = False"
| "conversion_throws (JBool b) = False"
| "conversion_throws (JNum n) = False"
| "conversion_throws (JStr s) = False"
| "conversion_throws (JArr xs) = elements_throw xs"
| "conversion_throws (JObj kvs) = (map_of kvs ''toString'' \<noteq> None)"
| "elements_throw [] = False"
| "elements_throw (x # xs) =
     (if nullish x then elements_throw xs
      else if conversion_throws x then True
      else elements_throw xs)"

text \<open>\<open>s.toUpperCase()\<close> on an ASCII string.\<close>

definition upper_char :: "char \<Rightarrow> char" where
  "upper_char c =
     (case map_of (zip ''abcdefghijklmnopqrstuvwxyz'' ''ABCDEFGHIJKLMNOPQRSTUVWXYZ'') c of
        Some u \<Rightarrow> u
      | None \<Rightarrow> c)"

definition toUpperCase :: "string \<Rightarrow> string" where
  "toUpperCase s = map upper_char s"

text \<open>\<open>s.replace(/a/g, b)\<close> for single characters \<open>a\<close> and \<open>b\<close>.\<close>

definition replace_all :: "char \<Rightarrow> char \<Rightarrow> string \<Rightarrow> string" where
  "replace_all a b s = map (\<lambda>c. if c = a then b else c) s"

text \<open>\<open>s.split(sep)\<close> for a single-character separator: never the empty array.\<close>

fun js_split :: "char \<Rightarrow> string \<Rightarrow> string list" where
  "js_split sep [] = [[]]"
| "js_split sep (c # cs) =
     (if c = sep then [] # js_split sep cs
      else (case js_split sep cs of
              [] \<Rightarrow> [[c]]
            | w # ws \<Rightarrow> (c # w) # ws))"

text \<open>\<open>xs[0]\<close>: \<open>undefined\<close> (here \<open>None\<close>) on the empty array.\<close>

fun first_elem :: "'a list \<Rightarrow> 'a option" where
  "first_elem [] = None"
| "first_elem (x # xs) = Some x"

text \<open>
  \<open>Array.from(new Set(xs))\<close>: a Set keeps the first insertion of every element,
  in insertion order. \<open>set_add\<close> inserts the elements one by one.
\<close>

fun set_add :: "'a list \<Rightarrow> 'a list \<Rightarrow> 'a list" where
  "set_add acc [] = acc"
| "set_add acc (x # xs) = set_add (if x \<in> set acc then acc else acc @ [x]) xs"

definition array_from_set :: "'a list \<Rightarrow> 'a list" where
  "array_from_set xs = set_add [] xs"

section \<open>The Explore screen (\<open>app/(app)/index.tsx\<close>)\<close>

subsection \<open>Logo candidates\<close>

definition image_stock_url :: "string \<Rightarrow> string" where
  "image_stock_url v = ''https://financialmodelingprep.com/image-stock/'' @ v @ ''.png''"

text \<open>\<open>.filter(Boolean)\<close> on an array of strings and \<open>undefined\<close>s.\<close>

fun filter_Boolean :: "string option list \<Rightarrow> string list" where
  "filter_Boolean [] = []"
| "filter_Boolean (None # vs) = filter_Boolean vs"
| "filter_Boolean (Some v # vs) = (if v = [] then filter_Boolean vs else v # filter_Boolean vs)"

definition symbol_variants :: "string \<Rightarrow> string list" where
  "symbol_variants s =
     array_from_set (filter_Boolean
       [Some s,
        Some (replace_all (CHR ''.'') (CHR ''-'') s),
        Some (replace_all (CHR ''-'') (CHR ''.'') s),
        first_elem (js_split (CHR ''.'') s),
        first_elem (js_split (CHR ''-'') s)])"

text \<open>\<open>candidateImageUris\<close>: the list of URLs, or the TypeError of \<open>String(symbol)\<close>.\<close>

definition candidateImageUris :: "(rat \<Rightarrow> string) \<Rightarrow> jsval \<Rightarrow> error + string list" where
  "candidateImageUris ns symbol =
     (if \<not> truthy symbol then Inr []
      else (case js_String ns symbol of
              Inl e \<Rightarrow> Inl e
            | Inr str \<Rightarrow> Inr (map image_stock_url (symbol_variants (toUpperCase str)))))"

subsection \<open>The logo component \<open>StockLogo\<close>\<close>

text \<open>
  What \<open>Image\<close> is given as \<open>source\<close>: the bundled placeholder asset, or
  \<open>{ uri: candidates[i] }\<close>. An array read out of range is \<open>undefined\<close> in
  JavaScript, here \<open>None\<close>. The state \<open>idx\<close> starts at 0 and is only ever
  incremented, so it is a natural number; the index arithmetic is on integers
  (\<open>candidates.length - 1\<close> is \<open>-1\<close> for the empty array).
\<close>

datatype image_source = Fallback | Uri "string option"

definition js_index :: "'a list \<Rightarrow> int \<Rightarrow> 'a option" where
  "js_index xs i = (if 0 \<le> i \<and> i < int (length xs) then Some (xs ! nat i) else None)"

record logo_state =
  idx :: nat
  failed :: bool

definition logo_init :: logo_state where
  "logo_init = \<lparr>idx = 0, failed = False\<rparr>"

text \<open>\<open>uris && uris.length ? uris : uri ? [uri] : []\<close>\<close>

definition logo_candidates :: "string option \<Rightarrow> string list option \<Rightarrow> string list" where
  "logo_candidates uri uris =
     (let from_uri = (case uri of None \<Rightarrow> [] | Some u \<Rightarrow> if u \<noteq> [] then [u] else []) in
      case uris of
        None \<Rightarrow> from_uri
      | Some us \<Rightarrow> if length us \<noteq> 0 then us else from_uri)"

definition StockLogo_src :: "string list \<Rightarrow> logo_state \<Rightarrow> image_source" where
  "StockLogo_src candidates st =
     (if failed st \<or> length candidates = 0 then Fallback
      else Uri (js_index candidates (min (int (idx st)) (int (length candidates) - 1))))"

definition StockLogo_onError :: "string list \<Rightarrow> logo_state \<Rightarrow> logo_state" where
  "StockLogo_onError candidates st =
     (if int (idx st) < int (length candidates) - 1 then st\<lparr>idx := idx st + 1\<rparr>
      else st\<lparr>failed := True\<rparr>)"

text \<open>
  The component at run time: \<open>Image\<close> loads the source; when a remote image
  does not load it calls \<open>onError\<close>, the state changes and the component
  renders again. \<open>loads\<close> says which URLs load; the bundled asset always does.
  The result is the source the component ends up showing.
\<close>

function StockLogo_show :: "(string \<Rightarrow> bool) \<Rightarrow> string list \<Rightarrow> logo_state \<Rightarrow> image_source" where
  "StockLogo_show loads candidates st =
     (case StockLogo_src candidates st of
        Fallback \<Rightarrow> Fallback
      | Uri None \<Rightarrow> Uri None
      | Uri (Some u) \<Rightarrow>
          if loads u then Uri (Some u)
          else StockLogo_show loads candidates (StockLogo_onError candidates st))"
  by pat_completeness auto
termination
  by (relation "measure (\<lambda>(loads, candidates, st).
        if failed st then 0 else 1 + (length candidates - idx st))")
     (auto simp: StockLogo_src_def StockLogo_onError_def split: if_splits)

declare StockLogo_show.simps [simp del]

subsection \<open>Symbol search (\<open>debouncedSearch\<close>)\<close>

text \<open>
  The body of the debounced callback. The query is the string \<open>searchValue\<close>,
  so \<open>!query\<close> tests for the empty string. \<open>searchTicker\<close> is imported from
  \<open>api/alphaVantage\<close> and is a parameter: given the query, the promise it
  returns resolves to a value or rejects. The first component of the result
  lists the queries \<open>searchTicker\<close> was called with.
\<close>

record search_state =
  searchResults :: "jsval list"
  searchLoading :: bool
  searchError :: string

definition debouncedSearch ::
  "(string \<Rightarrow> error + jsval) \<Rightarrow> string \<Rightarrow> search_state \<Rightarrow> string list \<times> search_state" where
  "debouncedSearch searchTicker query st =
     (if query = [] \<or> length query < 1 then
        ([], st\<lparr>searchResults := [], searchError := []\<rparr>)
      else
        ([query],
         case searchTicker query of
           Inr results \<Rightarrow>
             (case (if truthy results then get_prop results ''bestMatches'' else JUndefined) of
                JArr matches \<Rightarrow>
                  st\<lparr>searchError := [], searchResults := matches, searchLoading := False\<rparr>
              | other \<Rightarrow>
                  st\<lparr>searchError := [], searchResults := [], searchLoading := False\<rparr>)
         | Inl e \<Rightarrow>
             st\<lparr>searchError := ''Search failed.'', searchResults := [], searchLoading := False\<rparr>))"

subsection \<open>Logo prefetch for search results (\<open>prefetchImages\<close>)\<close>



text \<open>
  \<open>Promise.all\<close> over promises that have all been started: it resolves to the
  list of results, or rejects when a member rejects. No member is cancelled.
\<close>

fun promise_all :: "(error + 'a) list \<Rightarrow> error + 'a list" where
  "promise_all [] = Inr []"
| "promise_all (Inl e # ps) = Inl e"
| "promise_all (Inr x # ps) = (case promise_all ps of Inl e \<Rightarrow> Inl e | Inr xs \<Rightarrow> Inr (x # xs))"


subsection \<open>Ticker normalization (\<open>mapStock\<close>) and logo resolution (\<open>updateStockImages\<close>)\<close>

text \<open>
  The interface \<open>Stock\<close>. Its fields are declared \<open>string\<close>, but \<open>mapStock\<close>
  fills them from a value of type \<open>any\<close> with no conversion, so a field holds
  whatever the payload held; only \<open>image\<close> is always a string. The fields
  carry the prefix \<open>stock_\<close>.
\<close>

record stock =
  stock_name :: jsval
  stock_price :: jsval
  stock_symbol :: jsval
  stock_image :: string
  stock_change :: jsval

definition mapStock :: "jsval \<Rightarrow> error + stock" where
  "mapStock s =
     (if nullish s then Inl TypeError
      else Inr \<lparr>
        stock_name = js_or (js_or (js_or (get_prop s ''name'') (get_prop s ''symbol''))
                 (get_prop s ''ticker'')) (JStr []),
        stock_price = js_or (js_or (get_prop s ''price'') (get_prop s ''close'')) (JStr []),
        stock_symbol = js_or (js_or (js_or (get_prop s ''ticker'') (get_prop s ''symbol''))
                   (get_prop s ''name'')) (JStr []),
        stock_image = ''placeholder'',
        stock_change = js_or (get_prop s ''change'') (JStr [])\<rparr>)"

text \<open>
  The \<open>for (const url of candidates)\<close> loop of \<open>updateStockImages\<close> for one
  stock: the URLs it prefetched, in order, and the stock it returns. A
  prefetch that rejects is caught and the loop goes on.
\<close>

fun resolve_candidates ::
  "(string \<Rightarrow> error + bool) \<Rightarrow> stock \<Rightarrow> string list \<Rightarrow> string list \<times> stock" where
  "resolve_candidates prefetch st [] = ([], st)"
| "resolve_candidates prefetch st (url # urls) =
     (case prefetch url of
        Inr True \<Rightarrow> ([url], st\<lparr>stock_image := url\<rparr>)
      | Inr False \<Rightarrow>
          (url # fst (resolve_candidates prefetch st urls),
           snd (resolve_candidates prefetch st urls))
      | Inl e \<Rightarrow>
          (url # fst (resolve_candidates prefetch st urls),
           snd (resolve_candidates prefetch st urls)))"

text \<open>
  One member of \<open>updateStockImages\<close>: it rejects when \<open>candidateImageUris\<close>
  throws, and otherwise runs the loop. \<open>updateStockImages\<close> is \<open>Promise.all\<close>
  over the members.
\<close>

definition updateStockImage ::
  "(rat \<Rightarrow> string) \<Rightarrow> (string \<Rightarrow> error + bool) \<Rightarrow> stock \<Rightarrow> string list \<times> (error + stock)" where
  "updateStockImage ns prefetch st =
     (case candidateImageUris ns (stock_symbol st) of
        Inl e \<Rightarrow> ([], Inl e)
      | Inr candidates \<Rightarrow>
          (fst (resolve_candidates prefetch st candidates),
           Inr (snd (resolve_candidates prefetch st candidates))))"

definition updateStockImages ::
  "(rat \<Rightarrow> string) \<Rightarrow> (string \<Rightarrow> error + bool) \<Rightarrow> stock list \<Rightarrow> error + stock list" where
  "updateStockImages ns prefetch stocks =
     promise_all (map (\<lambda>st. snd (updateStockImage ns prefetch st)) stocks)"

section \<open>The Watchlist screen (\<open>app/(app)/watchlist.tsx\<close>)\<close>

subsection \<open>State, loading and deleting groups\<close>

text \<open>
  The state \<open>groups\<close> has the declared type \<open>{ [group: string]: string[] }\<close>:
  an object, kept as the list of its properties in key order.
  \<open>JSON.parse\<close> and \<open>JSON.stringify\<close> are parameters: \<open>parse\<close> gives the
  mapping a text denotes or throws a SyntaxError. \<open>AsyncStorage.getItem\<close>
  resolves to the stored text or \<open>null\<close>, or rejects.
\<close>

type_synonym groups = "(string \<times> string list) list"

record watchlist =
  groups :: groups
  selectedGroup :: "string option"

definition watchlist_init :: watchlist where
  "watchlist_init = \<lparr>groups = [], selectedGroup = None\<rparr>"

text \<open>The body of the \<open>try\<close> block of \<open>loadGroups\<close>.\<close>

definition loadGroups_try ::
  "(string \<Rightarrow> error + string option) \<Rightarrow> (string \<Rightarrow> error + groups) \<Rightarrow> watchlist \<Rightarrow> error + watchlist" where
  "loadGroups_try getItem parse st =
     (case getItem ''WATCHLIST_GROUPS'' of
        Inl e \<Rightarrow> Inl e
      | Inr None \<Rightarrow> Inr st
      | Inr (Some data) \<Rightarrow>
          if data = [] then Inr st
          else (case parse data of
                  Inl e \<Rightarrow> Inl e
                | Inr g \<Rightarrow> Inr (st\<lparr>groups := g\<rparr>)))"

text \<open>\<open>loadGroups\<close>: the \<open>try\<close> block under its empty \<open>catch\<close>.\<close>

definition loadGroups ::
  "(string \<Rightarrow> error + string option) \<Rightarrow> (string \<Rightarrow> error + groups) \<Rightarrow> watchlist \<Rightarrow> error + watchlist" where
  "loadGroups getItem parse st =
     (case loadGroups_try getItem parse st of
        Inl e \<Rightarrow> Inr st
      | Inr st' \<Rightarrow> Inr st')"

text \<open>\<open>delete updated[group]\<close> on a copy of the object.\<close>

definition object_delete :: "string \<Rightarrow> groups \<Rightarrow> groups" where
  "object_delete grp gs = filter (\<lambda>kv. fst kv \<noteq> grp) gs"

text \<open>
  \<open>deleteGroup\<close> asks for confirmation; the work is done by the handler of the
  \<open>Delete\<close> button. \<open>AsyncStorage\<close> is a map from keys to texts; \<open>write_error\<close>
  is the rejection of \<open>setItem\<close>, if it rejects. The handler awaits the write
  before it touches the state, so a rejected write leaves the state alone and
  the handler's promise rejects.
\<close>

datatype alert_button = Cancel | Delete

definition deleteGroup_onPress ::
  "(groups \<Rightarrow> string) \<Rightarrow> error option \<Rightarrow> string \<Rightarrow>
   watchlist \<times> (string \<rightharpoonup> string) \<Rightarrow> error + watchlist \<times> (string \<rightharpoonup> string)" where
  "deleteGroup_onPress stringify write_error grp ws =
     (let st = fst ws; storage = snd ws;
          updated = object_delete grp (groups st) in
      case write_error of
        Some e \<Rightarrow> Inl e
      | None \<Rightarrow>
          Inr (st\<lparr>groups := updated,
                  selectedGroup := (if selectedGroup st = Some grp then None
                                    else selectedGroup st)\<rparr>,
               storage(''WATCHLIST_GROUPS'' \<mapsto> stringify updated)))"

definition deleteGroup ::
  "alert_button \<Rightarrow> (groups \<Rightarrow> string) \<Rightarrow> error option \<Rightarrow> string \<Rightarrow>
   watchlist \<times> (string \<rightharpoonup> string) \<Rightarrow> error + watchlist \<times> (string \<rightharpoonup> string)" where
  "deleteGroup pressed stringify write_error grp ws =
     (case pressed of
        Cancel \<Rightarrow> Inr ws
      | Delete \<Rightarrow> deleteGroup_onPress stringify write_error grp ws)"

subsection \<open>Prices and images of a group (\<open>loadDetails\<close>)\<close>

text \<open>
  What \<open>fetch(url)\<close> resolves to: \<open>res.ok\<close> and the outcome of \<open>res.json()\<close>.
  The network is a record of parameters: \<open>fetch\<close> and \<open>Image.prefetch\<close> resolve
  or reject per URL, and \<open>net_toFixed2 v\<close> is the text of
  \<open>Number(v).toFixed(2)\<close> for a \<open>v\<close> that \<open>Number\<close> converts.
\<close>

record response =
  res_ok :: bool
  res_json :: "error + jsval"

record network =
  net_fetch :: "string \<Rightarrow> error + response"
  net_prefetch :: "string \<Rightarrow> error + bool"
  net_toFixed2 :: "jsval \<Rightarrow> string"

record watch_stock =
  w_symbol :: string
  w_image :: string
  w_price :: jsval

datatype request = QuoteRequest string | PrefetchRequest string

definition quote_short_url :: "string \<Rightarrow> string" where
  "quote_short_url upper = ''https://financialmodelingprep.com/api/v3/quote-short/'' @ upper"

text \<open>
  The spread \<open>...(v)\<close> inside an array literal: an array gives its elements, a
  string its characters, anything else is not iterable.
\<close>

fun spread :: "jsval \<Rightarrow> error + jsval list" where
  "spread (JArr xs) = Inr xs"
| "spread (JStr s) = Inr (map (\<lambda>c. JStr [c]) s)"
| "spread v = Inl TypeError"

text \<open>\<open>[ ...(cached.top_gainers || []), ...(cached.top_losers || []) ]\<close>\<close>

definition all_entries :: "jsval \<Rightarrow> error + jsval list" where
  "all_entries cached =
     (case spread (js_or (get_prop cached ''top_gainers'') (JArr [])) of
        Inl e \<Rightarrow> Inl e
      | Inr gainers \<Rightarrow>
          (case spread (js_or (get_prop cached ''top_losers'') (JArr [])) of
             Inl e \<Rightarrow> Inl e
           | Inr losers \<Rightarrow> Inr (gainers @ losers)))"

text \<open>
  \<open>all.find((s) => (s.ticker || s.symbol || s.name || '').toUpperCase() === upper)\<close>:
  the first entry that matches, \<open>undefined\<close> when none does. The callback
  throws on an entry that is \<open>null\<close> or \<open>undefined\<close>, and on one whose ticker is
  not a string (no \<open>toUpperCase\<close> to call).
\<close>

fun find_entry :: "string \<Rightarrow> jsval list \<Rightarrow> error + jsval" where
  "find_entry upper [] = Inr JUndefined"
| "find_entry upper (s # ss) =
     (if nullish s then Inl TypeError
      else (case js_or (js_or (js_or (get_prop s ''ticker'') (get_prop s ''symbol''))
                    (get_prop s ''name'')) (JStr []) of
              JStr t \<Rightarrow> if toUpperCase t = upper then Inr s else find_entry upper ss
            | other \<Rightarrow> Inl TypeError))"

text \<open>The price after the look-up in the cached gainers and losers.\<close>

definition cached_price :: "(jsval \<Rightarrow> string) \<Rightarrow> jsval \<Rightarrow> string \<Rightarrow> error + jsval" where
  "cached_price fixed cached upper =
     (let price = JStr ''--'' in
      if truthy cached then
        (case all_entries cached of
           Inl e \<Rightarrow> Inl e
         | Inr all_e \<Rightarrow>
             (case find_entry upper all_e of
                Inl e \<Rightarrow> Inl e
              | Inr found \<Rightarrow>
                  if truthy found then
                    (case js_or (js_or (js_or (get_prop found ''price'') (get_prop found ''close''))
                             (get_prop found ''last'')) price of
                       JNum n \<Rightarrow> Inr (JStr (''$'' @ fixed (JNum n)))
                     | p \<Rightarrow> Inr p)
                  else Inr price))
      else Inr price)"

text \<open>
  The quick-quote request and what it makes of the price. Everything is
  inside the \<open>try\<close>: a rejected request, a body that does not parse and a
  price that \<open>Number\<close> cannot convert all leave the price as it was.
\<close>

definition quick_quote :: "network \<Rightarrow> string \<Rightarrow> jsval \<Rightarrow> jsval" where
  "quick_quote net upper price =
     (case net_fetch net (quote_short_url upper) of
        Inl e \<Rightarrow> price
      | Inr res \<Rightarrow>
          if res_ok res then
            (case res_json res of
               Inl e \<Rightarrow> price
             | Inr (JArr js) \<Rightarrow>
                 (case first_elem js of
                    None \<Rightarrow> price
                  | Some j0 \<Rightarrow>
                      if truthy j0 \<and> \<not> nullish (get_prop j0 ''price'')
                      then (if conversion_throws (get_prop j0 ''price'') then price
                            else JStr (''$'' @ net_toFixed2 net (get_prop j0 ''price'')))
                      else price)
             | Inr other \<Rightarrow> price)
          else price)"


text \<open>
  One member of the batch: the requests it sends, in order, and the promise's
  outcome. Only the look-up in the cache is outside every \<open>try\<close>; the
  prefetch of the image is awaited and its outcome dropped.
\<close>

definition loadDetails_member ::
  "network \<Rightarrow> jsval \<Rightarrow> string \<Rightarrow> request list \<times> (error + watch_stock)" where
  "loadDetails_member net cached symb =
     (let upper = toUpperCase symb;
          imageUrl = image_stock_url upper in
      case cached_price (net_toFixed2 net) cached upper of
        Inl e \<Rightarrow> ([], Inl e)
      | Inr price \<Rightarrow>
          let quote = (\<not> truthy price \<or> price = JStr ''--'');
              price' = (if quote then quick_quote net upper price else price);
              item = \<lparr>w_symbol = symb, w_image = imageUrl, w_price = price'\<rparr>
          in ((if quote then [QuoteRequest (quote_short_url upper)] else []) @
                [PrefetchRequest imageUrl],
              case net_prefetch net imageUrl of
                Inl e \<Rightarrow> Inr item
              | Inr fetched \<Rightarrow> Inr item))"



subsection \<open>Example data\<close>


definition search_one_match :: "string \<Rightarrow> error + jsval" where
  "search_one_match query =
     Inr (JObj [(''bestMatches'', JArr [JObj [(''1. symbol'', JStr ''A''), (''2. name'', JStr ''Agilent'')]])])"

definition search_init :: search_state where
  "search_init = \<lparr>searchResults = [], searchLoading = False, searchError = []\<rparr>"



section \<open>The TTL cache of the specification\<close>

text \<open>
  Modelled from the spec: the key-value cache store and the TTL cache
  (\<open>read\<close>, \<open>isFresh\<close>, \<open>write\<close>, \<open>getOrFetch\<close>) live in \<open>app/api/alphaVantage.js\<close>,
  which is not among the sources; the definitions below follow sections 4.1
  and 4.2 of the specification. The store maps a key to the JSON value kept
  under it; an entry is \<open>{ value, fetchedAtEpochMillis }\<close>.
\<close>

record cache_entry =
  entry_value :: jsval
  fetchedAtEpochMillis :: rat

text \<open>Modelled from the spec: \<open>read(key)\<close>, absent when the stored shape is malformed.\<close>

definition cache_read :: "(string \<rightharpoonup> jsval) \<Rightarrow> string \<Rightarrow> cache_entry option" where
  "cache_read store key =
     (case store key of
        Some (JObj fs) \<Rightarrow>
          (case (map_of fs ''value'', map_of fs ''fetchedAtEpochMillis'') of
             (Some v, Some (JNum t)) \<Rightarrow> Some \<lparr>entry_value = v, fetchedAtEpochMillis = t\<rparr>
           | other \<Rightarrow> None)
      | other \<Rightarrow> None)"

text \<open>Modelled from the spec: \<open>isFresh(entry, now, ttlMillis)\<close>.\<close>

definition isFresh :: "cache_entry \<Rightarrow> rat \<Rightarrow> rat \<Rightarrow> bool" where
  "isFresh entry now ttlMillis = (now - fetchedAtEpochMillis entry < ttlMillis)"

text \<open>Modelled from the spec: \<open>write(key, value, now)\<close>.\<close>

definition cache_write :: "(string \<rightharpoonup> jsval) \<Rightarrow> string \<Rightarrow> jsval \<Rightarrow> rat \<Rightarrow> (string \<rightharpoonup> jsval)" where
  "cache_write store key v now =
     store(key \<mapsto> JObj [(''value'', v), (''fetchedAtEpochMillis'', JNum now)])"

text \<open>
  Modelled from the spec: \<open>getOrFetch(key, ttlMillis, fetcher)\<close>. \<open>fetcher\<close> is
  called with \<open>()\<close> when the entry is absent or stale; the result is the store
  afterwards, how often the fetcher was called, and the value or the failure.
\<close>

definition getOrFetch ::
  "(string \<rightharpoonup> jsval) \<Rightarrow> rat \<Rightarrow> string \<Rightarrow> rat \<Rightarrow> (unit \<Rightarrow> error + jsval) \<Rightarrow>
   (string \<rightharpoonup> jsval) \<times> nat \<times> (error + jsval)" where
  "getOrFetch store now key ttlMillis fetcher =
     (case cache_read store key of
        Some entry \<Rightarrow>
          if isFresh entry now ttlMillis then (store, 0, Inr (entry_value entry))
          else (case fetcher () of
                  Inr v \<Rightarrow> (cache_write store key v now, 1, Inr v)
                | Inl e \<Rightarrow> (store, 1, Inr (entry_value entry)))
      | None \<Rightarrow>
          (case fetcher () of
             Inr v \<Rightarrow> (cache_write store key v now, 1, Inr v)
           | Inl e \<Rightarrow> (store, 1, Inl e)))"

section \<open>Properties of the conversions\<close>

text \<open>\<open>String(v)\<close> and \<open>Number(v)\<close> throw on the same values.\<close>

lemma nullish_no_throw: "nullish x \<Longrightarrow> \<not> conversion_throws x"
  by (cases x) auto

lemma js_String_throws:
  "isl (js_String ns v) = conversion_throws v"
  "isl (js_join ns vs) = elements_throw vs"
proof (induction ns v and ns vs rule: js_String_js_join.induct)
  case (9 ns x xs)
  show ?case
  proof (cases "nullish x")
    case True
    then show ?thesis
      using 9 by (cases "xs = []") (auto split: sum.splits)
  next
    case False
    show ?thesis
    proof (cases "js_String ns x")
      case (Inl e)
      then show ?thesis using False 9(1) by simp
    next
      case (Inr str)
      then show ?thesis
        using False 9 by (cases "xs = []") (auto split: sum.splits)
    qed
  qed
qed auto

section \<open>Properties of the Explore screen\<close>

subsection \<open>Logo candidates\<close>







lemma length_toUpperCase: "length (toUpperCase s) = length s"
  by (simp add: toUpperCase_def)


















subsection \<open>Symbol search\<close>

text \<open>
  C2, as the code has it. On the empty query \<open>debouncedSearch\<close> clears the
  results without calling \<open>searchTicker\<close>. Every other query, one of white space
  included, is passed to \<open>searchTicker\<close> as it is, once. When the response has
  no \<open>bestMatches\<close> or \<open>bestMatches\<close> is not an array, and when the search
  fails, the results are the empty list; when \<open>bestMatches\<close> is an array it is
  the results.
\<close>

theorem search_empty_query_short_circuit:
  "debouncedSearch searchTicker [] st = ([], st\<lparr>searchResults := [], searchError := []\<rparr>) \<and>
   (query \<noteq> [] \<longrightarrow> fst (debouncedSearch searchTicker query st) = [query]) \<and>
   (query \<noteq> [] \<and> (\<exists>r. searchTicker query = Inr r \<and> (\<forall>ms. get_prop r ''bestMatches'' \<noteq> JArr ms))
      \<longrightarrow> searchResults (snd (debouncedSearch searchTicker query st)) = []) \<and>
   (query \<noteq> [] \<and> (\<exists>e. searchTicker query = Inl e)
      \<longrightarrow> searchResults (snd (debouncedSearch searchTicker query st)) = []) \<and>
   (\<forall>r ms. query \<noteq> [] \<and> searchTicker query = Inr r \<and> get_prop r ''bestMatches'' = JArr ms
      \<longrightarrow> searchResults (snd (debouncedSearch searchTicker query st)) = ms)"
proof -
  have truthy_arr: "truthy r" if "get_prop r ''bestMatches'' = JArr ms" for r ms
    using that by (cases r) simp_all
  show ?thesis
    by (auto simp: debouncedSearch_def truthy_arr split: jsval.splits sum.splits)
qed

text \<open>
  The claim as stated fails on the query of one space: \<open>searchTicker\<close> is
  called with it, and its matches are shown.
\<close>

theorem search_whitespace_query_counterexample:
  "debouncedSearch search_one_match '' '' search_init =
     (['' ''],
      \<lparr>searchResults = [JObj [(''1. symbol'', JStr ''A''), (''2. name'', JStr ''Agilent'')]],
       searchLoading = False, searchError = []\<rparr>)"
  by (simp add: debouncedSearch_def search_one_match_def search_init_def)

text \<open>
  The empty query; the query \<open>ag\<close> with one match, with a response that has
  only a \<open>Note\<close>, and with a failing search.
\<close>

theorem search_empty_query_short_circuit_witness:
  "debouncedSearch search_one_match [] search_init = ([], search_init) \<and>
   fst (debouncedSearch search_one_match ''ag'' search_init) = [''ag''] \<and>
   searchResults (snd (debouncedSearch (\<lambda>q. Inr (JObj [(''Note'', JStr ''rate limit'')])) ''ag'' search_init)) = [] \<and>
   searchResults (snd (debouncedSearch (\<lambda>q. Inl FetchFailed) ''ag'' search_init)) = [] \<and>
   searchResults (snd (debouncedSearch search_one_match ''ag'' search_init)) =
     [JObj [(''1. symbol'', JStr ''A''), (''2. name'', JStr ''Agilent'')]]"
  using search_empty_query_short_circuit [of search_one_match search_init "''ag''"]
    search_empty_query_short_circuit [of "\<lambda>q. Inr (JObj [(''Note'', JStr ''rate limit'')])" search_init "''ag''"]
    search_empty_query_short_circuit [of "\<lambda>q. Inl FetchFailed" search_init "''ag''"]
  by (simp add: search_one_match_def search_init_def)

subsection \<open>Ticker normalization\<close>

lemma mapStock_defined: "\<not> nullish s \<Longrightarrow> \<exists>r. mapStock s = Inr r"
  by (simp add: mapStock_def)

text \<open>
  C3. \<open>mapStock\<close> is total on objects: every object gives a record, with the
  placeholder as its image. An object with none of the fields \<open>ticker\<close>,
  \<open>symbol\<close> and \<open>name\<close> gets the empty string as its symbol (and as its name);
  with neither \<open>price\<close> nor \<open>close\<close> the price is the empty string; with no
  \<open>change\<close> the change is the empty string.
\<close>

theorem mapStock_total:
  "\<exists>r. mapStock (JObj kvs) = Inr r \<and>
     stock_image r = ''placeholder'' \<and>
     (map_of kvs ''ticker'' = None \<and> map_of kvs ''symbol'' = None \<and> map_of kvs ''name'' = None
        \<longrightarrow> stock_symbol r = JStr [] \<and> stock_name r = JStr []) \<and>
     (map_of kvs ''price'' = None \<and> map_of kvs ''close'' = None \<longrightarrow> stock_price r = JStr []) \<and>
     (map_of kvs ''change'' = None \<longrightarrow> stock_change r = JStr [])"
  by (simp add: mapStock_def js_or_def)

text \<open>An object that only has a \<open>volume\<close>: every normalized field is the empty string.\<close>

theorem mapStock_total_witness:
  "\<exists>r. mapStock (JObj [(''volume'', JNum 5)]) = Inr r \<and> stock_image r = ''placeholder'' \<and>
     stock_symbol r = JStr [] \<and> stock_name r = JStr [] \<and> stock_price r = JStr [] \<and>
     stock_change r = JStr []"
  using mapStock_total [of "[(''volume'', JNum 5)]"] by simp

subsection \<open>The logo component\<close>

text \<open>The source is the placeholder or a candidate: the array is never read out of range.\<close>

lemma StockLogo_src_in_range:
  "StockLogo_src candidates st = Fallback \<or>
   (\<exists>u \<in> set candidates. StockLogo_src candidates st = Uri (Some u))"
proof (cases "failed st \<or> length candidates = 0")
  case True
  then show ?thesis by (simp add: StockLogo_src_def)
next
  case False
  then have len: "0 < length candidates" by simp
  define i where "i = min (idx st) (length candidates - 1)"
  have i_lt: "i < length candidates" using len unfolding i_def by arith
  have "min (int (idx st)) (int (length candidates) - 1) = int i"
    using len unfolding i_def by arith
  then have "StockLogo_src candidates st = Uri (Some (candidates ! i))"
    using False i_lt by (simp add: StockLogo_src_def js_index_def)
  moreover have "candidates ! i \<in> set candidates" using i_lt by simp
  ultimately show ?thesis by blast
qed

lemma StockLogo_show_empty: "StockLogo_show loads [] st = Fallback"
  by (simp add: StockLogo_show.simps StockLogo_src_def)

text \<open>
  C10. For an absent (\<open>undefined\<close>), \<open>null\<close> or empty symbol \<open>candidateImageUris\<close>
  returns the empty list. The logo component with no candidates (no \<open>uri\<close>, and
  \<open>uris\<close> absent or that empty list) renders the placeholder in
  every state and ends up showing it; and whatever the candidates and the
  state, its source is never an array read out of range.
\<close>

theorem empty_symbol_placeholder:
  "candidateImageUris ns JUndefined = Inr [] \<and>
   candidateImageUris ns JNull = Inr [] \<and>
   candidateImageUris ns (JStr []) = Inr [] \<and>
   logo_candidates None None = [] \<and>
   logo_candidates None (Some []) = [] \<and>
   StockLogo_src [] st = Fallback \<and>
   StockLogo_show loads [] st = Fallback \<and>
   StockLogo_src candidates st \<noteq> Uri None"
  using StockLogo_src_in_range [of candidates st] StockLogo_show_empty [of loads st]
  by (auto simp: candidateImageUris_def logo_candidates_def StockLogo_src_def)

theorem empty_symbol_placeholder_witness:
  "candidateImageUris (\<lambda>n. ''0'') JUndefined = Inr [] \<and>
   candidateImageUris (\<lambda>n. ''0'') (JStr []) = Inr [] \<and>
   logo_candidates None (Some []) = [] \<and>
   StockLogo_show (\<lambda>u. False) [] logo_init = Fallback \<and>
   StockLogo_src [''a'', ''b''] logo_init \<noteq> Uri None"
  using empty_symbol_placeholder [of "\<lambda>n. ''0''" logo_init "\<lambda>u. False" "[''a'', ''b'']"]
  by blast

subsection \<open>Logo resolution\<close>

text \<open>The loop of \<open>updateStockImages\<close>, by the first candidate that is fetched.\<close>

lemma resolve_candidates_result:
  "snd (resolve_candidates prefetch st urls) =
     (case find (\<lambda>u. prefetch u = Inr True) urls of
        Some u \<Rightarrow> st\<lparr>stock_image := u\<rparr>
      | None \<Rightarrow> st)"
  by (induction urls) (auto split: sum.splits bool.splits)

lemma resolve_candidates_attempts:
  "fst (resolve_candidates prefetch st urls) =
     (case find (\<lambda>u. prefetch u = Inr True) urls of
        Some u \<Rightarrow> takeWhile (\<lambda>v. prefetch v \<noteq> Inr True) urls @ [u]
      | None \<Rightarrow> urls)"
  by (induction urls) (auto split: sum.splits bool.splits option.splits)

lemma StockLogo_show_from:
  "\<not> failed st \<Longrightarrow> idx st < length candidates \<Longrightarrow>
   StockLogo_show loads candidates st =
     (case find loads (drop (idx st) candidates) of
        Some u \<Rightarrow> Uri (Some u)
      | None \<Rightarrow> Fallback)"
proof (induction "length candidates - idx st" arbitrary: st)
  case 0
  then show ?case by simp
next
  case (Suc n)
  let ?i = "idx st"
  have ne: "candidates \<noteq> []" using Suc.prems by auto
  have "min (int ?i) (int (length candidates) - 1) = int ?i"
    using Suc.prems by simp
  then have src: "StockLogo_src candidates st = Uri (Some (candidates ! ?i))"
    using Suc.prems ne by (simp add: StockLogo_src_def js_index_def)
  have dr: "drop ?i candidates = candidates ! ?i # drop (Suc ?i) candidates"
    using Suc.prems by (simp add: Cons_nth_drop_Suc)
  show ?case
  proof (cases "loads (candidates ! ?i)")
    case True
    then show ?thesis using src dr by (simp add: StockLogo_show.simps)
  next
    case False
    show ?thesis
    proof (cases "Suc ?i < length candidates")
      case True
      let ?st' = "st\<lparr>idx := Suc ?i\<rparr>"
      have st': "StockLogo_onError candidates st = ?st'"
        using True by (simp add: StockLogo_onError_def)
      have "n = length candidates - idx ?st'" using Suc.hyps(2) by simp
      moreover have "\<not> failed ?st'" "idx ?st' < length candidates"
        using Suc.prems True by simp_all
      ultimately have "StockLogo_show loads candidates ?st' =
        (case find loads (drop (idx ?st') candidates) of Some u \<Rightarrow> Uri (Some u) | None \<Rightarrow> Fallback)"
        by (rule Suc.hyps(1))
      then show ?thesis
        using src dr False st' by (subst StockLogo_show.simps) simp
    next
      case last: False
      have st': "StockLogo_onError candidates st = st\<lparr>failed := True\<rparr>"
        using last Suc.prems by (simp add: StockLogo_onError_def)
      have "drop (Suc ?i) candidates = []" using last by simp
      moreover have "StockLogo_show loads candidates (st\<lparr>failed := True\<rparr>) = Fallback"
        by (simp add: StockLogo_show.simps StockLogo_src_def)
      ultimately show ?thesis
        using src dr False st' by (subst StockLogo_show.simps) simp
    qed
  qed
qed

lemma StockLogo_show_init:
  "StockLogo_show loads candidates logo_init =
     (case find loads candidates of Some u \<Rightarrow> Uri (Some u) | None \<Rightarrow> Fallback)"
proof (cases candidates)
  case Nil
  then show ?thesis by (simp add: StockLogo_show.simps StockLogo_src_def)
next
  case (Cons u us)
  then show ?thesis
    using StockLogo_show_from [of logo_init candidates loads] by (simp add: logo_init_def)
qed

text \<open>
  C5. Logo resolution tries the candidates in order. The loop of
  \<open>updateStockImages\<close> prefetches every candidate up to and including the first
  one that is fetched (all of them when none is: a candidate that is not
  fetched, or whose prefetch rejects, does not stop the loop) and returns the
  stock with that first candidate as its image, or the stock unchanged when
  none is fetched or there is no candidate; for a stock made by \<open>mapStock\<close> the
  image is then still the sentinel \<open>placeholder\<close>. The component \<open>StockLogo\<close>,
  from its initial state, ends up showing the first candidate that loads, or
  the placeholder asset when none loads or there is none.
\<close>

theorem logo_resolution_first_loadable:
  "fst (resolve_candidates prefetch st candidates) =
     (case find (\<lambda>u. prefetch u = Inr True) candidates of
        Some u \<Rightarrow> takeWhile (\<lambda>v. prefetch v \<noteq> Inr True) candidates @ [u]
      | None \<Rightarrow> candidates) \<and>
   snd (resolve_candidates prefetch st candidates) =
     (case find (\<lambda>u. prefetch u = Inr True) candidates of
        Some u \<Rightarrow> st\<lparr>stock_image := u\<rparr>
      | None \<Rightarrow> st) \<and>
   (\<forall>s. mapStock s = Inr st \<and> find (\<lambda>u. prefetch u = Inr True) candidates = None \<longrightarrow>
        stock_image (snd (resolve_candidates prefetch st candidates)) = ''placeholder'') \<and>
   StockLogo_show loads candidates logo_init =
     (case find loads candidates of Some u \<Rightarrow> Uri (Some u) | None \<Rightarrow> Fallback)"
proof -
  have placeholder: "stock_image st = ''placeholder''" if "mapStock s = Inr st" for s
    using that by (auto simp: mapStock_def split: if_splits)
  have "snd (resolve_candidates prefetch st candidates) = st"
    if "find (\<lambda>u. prefetch u = Inr True) candidates = None"
    using that by (simp add: resolve_candidates_result)
  with placeholder show ?thesis
    by (auto simp: resolve_candidates_result resolve_candidates_attempts StockLogo_show_init)
qed

text \<open>
  Three candidates: the first rejects and the second is fetched; none is
  fetched; the component when only the last loads, and when none loads.
\<close>

theorem logo_resolution_first_loadable_witness:
  "mapStock (JObj [(''ticker'', JStr ''X'')]) =
     Inr \<lparr>stock_name = JStr ''X'', stock_price = JStr [], stock_symbol = JStr ''X'',
          stock_image = ''placeholder'', stock_change = JStr []\<rparr> \<and>
   resolve_candidates
     (\<lambda>u. if u = ''b'' then Inr True else if u = ''a'' then Inl FetchFailed else Inr False)
     \<lparr>stock_name = JStr ''X'', stock_price = JStr [], stock_symbol = JStr ''X'',
       stock_image = ''placeholder'', stock_change = JStr []\<rparr>
     [''a'', ''b'', ''c''] =
   ([''a'', ''b''],
    \<lparr>stock_name = JStr ''X'', stock_price = JStr [], stock_symbol = JStr ''X'',
      stock_image = ''b'', stock_change = JStr []\<rparr>) \<and>
   stock_image (snd (resolve_candidates (\<lambda>u. Inl FetchFailed)
     \<lparr>stock_name = JStr ''X'', stock_price = JStr [], stock_symbol = JStr ''X'',
       stock_image = ''placeholder'', stock_change = JStr []\<rparr>
     [''a'', ''b'', ''c''])) = ''placeholder'' \<and>
   StockLogo_show (\<lambda>u. u = ''c'') [''a'', ''b'', ''c''] logo_init = Uri (Some ''c'') \<and>
   StockLogo_show (\<lambda>u. False) [''a'', ''b'', ''c''] logo_init = Fallback"
  using logo_resolution_first_loadable [of
      "\<lambda>u. if u = ''b'' then Inr True else if u = ''a'' then Inl FetchFailed else Inr False"
      "\<lparr>stock_name = JStr ''X'', stock_price = JStr [], stock_symbol = JStr ''X'',
        stock_image = ''placeholder'', stock_change = JStr []\<rparr>"
      "[''a'', ''b'', ''c'']" "\<lambda>u. u = ''c''"]
    logo_resolution_first_loadable [of "\<lambda>u. Inl FetchFailed"
      "\<lparr>stock_name = JStr ''X'', stock_price = JStr [], stock_symbol = JStr ''X'',
        stock_image = ''placeholder'', stock_change = JStr []\<rparr>"
      "[''a'', ''b'', ''c'']" "\<lambda>u. False"]
  by (simp add: mapStock_def js_or_def prod_eq_iff)

section \<open>Properties of the Watchlist screen\<close>

subsection \<open>Loading the groups\<close>

text \<open>
  C7. \<open>loadGroups\<close> never raises: it always completes with a state. When nothing
  is stored under \<open>WATCHLIST_GROUPS\<close>, when the stored text does not parse, or
  when the read itself rejects, the state is the one it started from; on
  mount that is the initial state, which has no groups.
\<close>

theorem loadGroups_never_raises:
  "(\<exists>st'. loadGroups getItem parse st = Inr st') \<and>
   (getItem ''WATCHLIST_GROUPS'' = Inr None \<longrightarrow> loadGroups getItem parse st = Inr st) \<and>
   (\<forall>text e. getItem ''WATCHLIST_GROUPS'' = Inr (Some text) \<and> parse text = Inl e
        \<longrightarrow> loadGroups getItem parse st = Inr st) \<and>
   (\<forall>e. getItem ''WATCHLIST_GROUPS'' = Inl e \<longrightarrow> loadGroups getItem parse st = Inr st) \<and>
   groups watchlist_init = []"
  by (auto simp: loadGroups_def loadGroups_try_def watchlist_init_def split: sum.splits option.splits)

text \<open>A stored text that is not JSON, and an empty store, both from the initial state.\<close>

theorem loadGroups_never_raises_witness:
  "loadGroups (\<lambda>k. Inr (Some ''{oops'')) (\<lambda>t. Inl SyntaxError) watchlist_init = Inr watchlist_init \<and>
   loadGroups (\<lambda>k. Inr None) (\<lambda>t. Inl SyntaxError) watchlist_init = Inr watchlist_init \<and>
   groups watchlist_init = []"
  using loadGroups_never_raises [of "\<lambda>k. Inr (Some ''{oops'')" "\<lambda>t. Inl SyntaxError" watchlist_init]
    loadGroups_never_raises [of "\<lambda>k. Inr None" "\<lambda>t. Inl SyntaxError" watchlist_init]
  by simp

subsection \<open>Deleting a group\<close>

lemma map_of_object_delete:
  "map_of (object_delete grp gs) g = (if g = grp then None else map_of gs g)"
  by (induction gs) (auto simp: object_delete_def)

lemma object_delete_absent: "grp \<notin> fst ` set gs \<Longrightarrow> object_delete grp gs = gs"
  by (induction gs) (auto simp: object_delete_def)

lemma keys_object_delete: "fst ` set (object_delete grp gs) = fst ` set gs - {grp}"
  by (auto simp: object_delete_def)

lemma deleteGroup_Cancel: "deleteGroup Cancel stringify write_error grp ws = Inr ws"
  by (simp add: deleteGroup_def)

lemma deleteGroup_write_rejected:
  "deleteGroup Delete stringify (Some e) grp ws = Inl e"
  by (simp add: deleteGroup_def deleteGroup_onPress_def)

text \<open>
  C6. Confirmed with \<open>Delete\<close>, and the write to storage succeeding,
  \<open>deleteGroup\<close> completes without an error in one step: the new mapping has no
  entry for the group, its keys are the old keys without that group, every
  other group keeps its members, and the whole new mapping is what is written
  under the single key \<open>WATCHLIST_GROUPS\<close>. When the group does not exist the
  mapping is unchanged.
\<close>

theorem deleteGroup_removes_group:
  "\<exists>st'. deleteGroup Delete stringify None grp (st, storage) =
          Inr (st', storage(''WATCHLIST_GROUPS'' \<mapsto> stringify (groups st'))) \<and>
     map_of (groups st') grp = None \<and>
     fst ` set (groups st') = fst ` set (groups st) - {grp} \<and>
     (\<forall>g. g \<noteq> grp \<longrightarrow> map_of (groups st') g = map_of (groups st) g) \<and>
     (grp \<notin> fst ` set (groups st) \<longrightarrow> groups st' = groups st)"
  by (simp add: deleteGroup_def deleteGroup_onPress_def Let_def map_of_object_delete
      keys_object_delete object_delete_absent)

text \<open>
  Deleting \<open>Tech\<close> (the selected group) from two groups, and deleting a group
  that does not exist.
\<close>

theorem deleteGroup_removes_group_witness:
  "deleteGroup Delete (\<lambda>gs. concat (map fst gs)) None ''Tech''
     (\<lparr>groups = [(''Tech'', [''AAPL'', ''MSFT'']), (''Auto'', [''TSLA''])], selectedGroup = Some ''Tech''\<rparr>,
      Map.empty) =
   Inr (\<lparr>groups = [(''Auto'', [''TSLA''])], selectedGroup = None\<rparr>,
        [''WATCHLIST_GROUPS'' \<mapsto> ''Auto'']) \<and>
   (\<exists>st'. deleteGroup Delete (\<lambda>gs. concat (map fst gs)) None ''Nope''
        (\<lparr>groups = [(''Auto'', [''TSLA''])], selectedGroup = None\<rparr>, Map.empty) =
      Inr (st', [''WATCHLIST_GROUPS'' \<mapsto> ''Auto'']) \<and> groups st' = [(''Auto'', [''TSLA''])])"
  using deleteGroup_removes_group [of "\<lambda>gs. concat (map fst gs)" "''Tech''"
      "\<lparr>groups = [(''Tech'', [''AAPL'', ''MSFT'']), (''Auto'', [''TSLA''])], selectedGroup = Some ''Tech''\<rparr>"
      Map.empty]
    deleteGroup_removes_group [of "\<lambda>gs. concat (map fst gs)" "''Nope''"
      "\<lparr>groups = [(''Auto'', [''TSLA''])], selectedGroup = None\<rparr>" Map.empty]
  by (simp add: deleteGroup_def deleteGroup_onPress_def object_delete_def)

subsection \<open>The quick-quote request\<close>




lemma loadDetails_member_raises:
  "cached_price (net_toFixed2 net) cached (toUpperCase symb) = Inl e \<Longrightarrow>
   loadDetails_member net cached symb = ([], Inl e)"
  by (simp add: loadDetails_member_def)




subsection \<open>The batches\<close>










section \<open>Properties of the TTL cache of the specification\<close>

lemma cache_read_write:
  "cache_read (cache_write store key v t) key = Some \<lparr>entry_value = v, fetchedAtEpochMillis = t\<rparr>"
  by (simp add: cache_read_def cache_write_def)

text \<open>
  C1. When the fetcher fails and \<open>read\<close> finds an entry for the key, fresh or
  stale, \<open>getOrFetch\<close> returns the stored value and leaves the store as it is;
  when the fetcher fails and there is no entry, the failure is the result.
\<close>

theorem getOrFetch_serves_stale:
  "fetcher () = Inl e \<Longrightarrow>
   (\<forall>entry. cache_read store key = Some entry \<longrightarrow>
      snd (snd (getOrFetch store now key ttl fetcher)) = Inr (entry_value entry) \<and>
      fst (getOrFetch store now key ttl fetcher) = store) \<and>
   (cache_read store key = None \<longrightarrow>
      getOrFetch store now key ttl fetcher = (store, 1, Inl e))"
  by (simp add: getOrFetch_def)

text \<open>
  An entry written at time 0 and read after 25 hours with a failing fetcher,
  and an empty store.
\<close>

theorem getOrFetch_serves_stale_witness:
  "cache_read (cache_write Map.empty ''gainersLosersCache'' (JStr ''old'') 0) ''gainersLosersCache'' =
     Some \<lparr>entry_value = JStr ''old'', fetchedAtEpochMillis = 0\<rparr> \<and>
   \<not> isFresh \<lparr>entry_value = JStr ''old'', fetchedAtEpochMillis = 0\<rparr> 90000000 86400000 \<and>
   snd (snd (getOrFetch (cache_write Map.empty ''gainersLosersCache'' (JStr ''old'') 0) 90000000
       ''gainersLosersCache'' 86400000 (\<lambda>u. Inl FetchFailed))) = Inr (JStr ''old'') \<and>
   getOrFetch Map.empty 90000000 ''gainersLosersCache'' 86400000 (\<lambda>u. Inl FetchFailed) =
     (Map.empty, 1, Inl FetchFailed)"
  using getOrFetch_serves_stale [of "\<lambda>u. Inl FetchFailed" FetchFailed
      "cache_write Map.empty ''gainersLosersCache'' (JStr ''old'') 0" "''gainersLosersCache''"
      90000000 86400000]
    getOrFetch_serves_stale [of "\<lambda>u. Inl FetchFailed" FetchFailed
      Map.empty "''gainersLosersCache''" 90000000 86400000]
    cache_read_write [of Map.empty "''gainersLosersCache''" "JStr ''old''" 0]
  by (simp add: cache_read_def isFresh_def)

end
